theory Spec2Isabelle
  imports Main "HOL-Library.Sublist"
begin

section \<open>JSON documents and schema validation\<close>

text \<open>
  The four configuration documents are JSON files. A parsed JSON value is a \<open>json\<close>;
  an object keeps its properties as an association list, read with \<open>map_of\<close>
  (a missing key is JavaScript's \<open>undefined\<close>, here \<open>None\<close>). No schema of the
  program accepts a number, so the numeric payload is kept as an integer only.
\<close>

datatype json =
  JNull
| JBool bool
| JNumber int
| JString string
| JArray "json list"
| JObject "(string \<times> json) list"

text \<open>
  The zod combinators used by the schemas. A schema reads a possibly undefined input
  (\<open>None\<close>) and either yields the parsed value or fails (\<open>None\<close>, the ZodError that
  \<open>parse\<close> throws).
\<close>

fun z_string :: "json option \<Rightarrow> string option" where
  "z_string (Some (JString s)) = Some s"
| "z_string _ = None"

fun z_boolean :: "json option \<Rightarrow> bool option" where
  "z_boolean (Some (JBool b)) = Some b"
| "z_boolean _ = None"

fun z_optional :: "(json option \<Rightarrow> 'a option) \<Rightarrow> json option \<Rightarrow> 'a option option" where
  "z_optional s None = Some None"
| "z_optional s (Some j) = map_option Some (s (Some j))"

fun z_default :: "(json option \<Rightarrow> 'a option) \<Rightarrow> 'a \<Rightarrow> json option \<Rightarrow> 'a option" where
  "z_default s d None = Some d"
| "z_default s d (Some j) = s (Some j)"

fun z_array :: "(json option \<Rightarrow> 'a option) \<Rightarrow> json option \<Rightarrow> 'a list option" where
  "z_array s (Some (JArray xs)) = those (map (\<lambda>x. s (Some x)) xs)"
| "z_array s _ = None"

section \<open>Data model (types.ts)\<close>

text \<open>
  Field names carry a prefix where two records share a name (\<open>name\<close>, \<open>path\<close>) or
  where the name is a HOL constant (\<open>id\<close>).
\<close>

record Workspace =
  ws_name :: string
  ws_path :: string

record Project =
  project_name :: string
  project_path :: string
  workspaces :: "Workspace list"
  command :: "string option"

text \<open>
  A tool as the running program holds it. Optional properties are \<open>option\<close>s.
  \<open>supportsAdmin\<close> is optional because the built-in catalog is an object literal that
  leaves it out for most tools. \<open>requiresAdmin\<close> is the property that
  \<open>launchTool\<close> (lib/launcher.ts) reads; \<open>ToolSchema\<close> below names the admin flag
  \<open>supportsAdmin\<close> and does not declare \<open>requiresAdmin\<close>, and neither the
  built-in catalog nor the tool editor sets it.
\<close>

record Tool =
  tool_id :: string
  tool_name :: string
  executable :: string
  versionArgs :: "string option"
  updateCommand :: "string option"
  enabled :: bool
  launchInTerminal :: bool
  supportsAdmin :: "bool option"
  launchArgs :: "string option"
  projectFilePatterns :: "string list option"
  requiresAdmin :: "bool option"

record Settings =
  defaultCodePath :: string
  defaultTool :: string

subsection \<open>Schemas\<close>

fun WorkspaceSchema :: "json option \<Rightarrow> Workspace option" where
  "WorkspaceSchema (Some (JObject ps)) =
     (case z_string (map_of ps ''name'') of None \<Rightarrow> None | Some n \<Rightarrow>
      case z_string (map_of ps ''path'') of None \<Rightarrow> None | Some p \<Rightarrow>
      Some \<lparr>ws_name = n, ws_path = p\<rparr>)"
| "WorkspaceSchema _ = None"

fun ProjectSchema :: "json option \<Rightarrow> Project option" where
  "ProjectSchema (Some (JObject ps)) =
     (case z_string (map_of ps ''name'') of None \<Rightarrow> None | Some n \<Rightarrow>
      case z_string (map_of ps ''path'') of None \<Rightarrow> None | Some p \<Rightarrow>
      case z_default (z_array WorkspaceSchema) [\<lparr>ws_name = ''Root'', ws_path = ''.''\<rparr>]
             (map_of ps ''workspaces'') of None \<Rightarrow> None | Some ws \<Rightarrow>
      case z_optional z_string (map_of ps ''command'') of None \<Rightarrow> None | Some c \<Rightarrow>
      Some \<lparr>project_name = n, project_path = p, workspaces = ws, command = c\<rparr>)"
| "ProjectSchema _ = None"

definition ConfigSchema :: "json \<Rightarrow> Project list option" where
  "ConfigSchema data = z_array ProjectSchema (Some data)"

fun SettingsSchema :: "json option \<Rightarrow> Settings option" where
  "SettingsSchema (Some (JObject ps)) =
     (case z_default z_string ''D:/code/git'' (map_of ps ''defaultCodePath'') of
        None \<Rightarrow> None | Some cp \<Rightarrow>
      case z_default z_string ''claude'' (map_of ps ''defaultTool'') of
        None \<Rightarrow> None | Some dt \<Rightarrow>
      Some \<lparr>defaultCodePath = cp, defaultTool = dt\<rparr>)"
| "SettingsSchema _ = None"

text \<open>
  \<open>z.object\<close> strips the keys it does not declare, so a parsed tool never carries
  \<open>requiresAdmin\<close>.
\<close>

fun ToolSchema :: "json option \<Rightarrow> Tool option" where
  "ToolSchema (Some (JObject ps)) =
     (case z_string (map_of ps ''id'') of None \<Rightarrow> None | Some i \<Rightarrow>
      case z_string (map_of ps ''name'') of None \<Rightarrow> None | Some n \<Rightarrow>
      case z_string (map_of ps ''executable'') of None \<Rightarrow> None | Some ex \<Rightarrow>
      case z_optional z_string (map_of ps ''versionArgs'') of None \<Rightarrow> None | Some va \<Rightarrow>
      case z_optional z_string (map_of ps ''updateCommand'') of None \<Rightarrow> None | Some uc \<Rightarrow>
      case z_default z_boolean True (map_of ps ''enabled'') of None \<Rightarrow> None | Some en \<Rightarrow>
      case z_default z_boolean False (map_of ps ''launchInTerminal'') of None \<Rightarrow> None | Some lt \<Rightarrow>
      case z_default z_boolean False (map_of ps ''supportsAdmin'') of None \<Rightarrow> None | Some sa \<Rightarrow>
      case z_optional z_string (map_of ps ''launchArgs'') of None \<Rightarrow> None | Some la \<Rightarrow>
      case z_optional (z_array z_string) (map_of ps ''projectFilePatterns'') of
        None \<Rightarrow> None | Some pf \<Rightarrow>
      Some \<lparr>tool_id = i, tool_name = n, executable = ex, versionArgs = va,
            updateCommand = uc, enabled = en, launchInTerminal = lt,
            supportsAdmin = Some sa, launchArgs = la, projectFilePatterns = pf,
            requiresAdmin = None\<rparr>)"
| "ToolSchema _ = None"

definition ToolsConfigSchema :: "json \<Rightarrow> Tool list option" where
  "ToolsConfigSchema data = z_array ToolSchema (Some data)"

subsection \<open>Built-in defaults\<close>

definition getDefaultProjects :: "Project list" where
  "getDefaultProjects = []"

definition DEFAULT_SETTINGS :: Settings where
  "DEFAULT_SETTINGS = \<lparr>defaultCodePath = ''D:/code/git'', defaultTool = ''claude''\<rparr>"

text \<open>An entry of the catalog that gives only id, name, executable and \<open>enabled\<close>.\<close>

definition plain_tool :: "string \<Rightarrow> string \<Rightarrow> string \<Rightarrow> bool \<Rightarrow> Tool" where
  "plain_tool i n ex en =
     \<lparr>tool_id = i, tool_name = n, executable = ex, versionArgs = None,
      updateCommand = None, enabled = en, launchInTerminal = False,
      supportsAdmin = None, launchArgs = None, projectFilePatterns = None,
      requiresAdmin = None\<rparr>"

definition DEFAULT_TOOLS :: "Tool list" where
  "DEFAULT_TOOLS =
   [ (plain_tool ''claude'' ''Claude Code'' ''claude'' True)
       \<lparr>versionArgs := Some ''--version'', updateCommand := Some ''claude update'',
        launchInTerminal := True, supportsAdmin := Some True\<rparr>,
     (plain_tool ''gemini'' ''Gemini CLI'' ''gemini'' True)
       \<lparr>versionArgs := Some ''--version'',
        updateCommand := Some ''bun update --global @google/gemini-cli'',
        launchInTerminal := True, supportsAdmin := Some True\<rparr>,
     (plain_tool ''antigravity'' ''Antigravity'' ''antigravity'' True)
       \<lparr>projectFilePatterns := Some [''*.code-workspace'']\<rparr>,
     (plain_tool ''vscode'' ''VS Code'' ''code'' True)
       \<lparr>projectFilePatterns := Some [''*.code-workspace'']\<rparr>,
     (plain_tool ''vscode-insiders'' ''VS Code Insiders'' ''code-insiders'' False)
       \<lparr>projectFilePatterns := Some [''*.code-workspace'']\<rparr>,
     (plain_tool ''vs'' ''Visual Studio'' ''devenv'' False)
       \<lparr>projectFilePatterns := Some [''*.slnx'', ''*.sln'']\<rparr>,
     (plain_tool ''rider'' ''Rider'' ''rider'' True)
       \<lparr>projectFilePatterns := Some [''*.slnx'', ''*.sln'']\<rparr>,
     plain_tool ''idea'' ''IntelliJ IDEA'' ''idea'' True,
     plain_tool ''webstorm'' ''WebStorm'' ''webstorm'' True,
     plain_tool ''pycharm'' ''PyCharm'' ''pycharm'' False,
     plain_tool ''goland'' ''GoLand'' ''goland'' False,
     plain_tool ''clion'' ''CLion'' ''clion'' False,
     plain_tool ''phpstorm'' ''PhpStorm'' ''phpstorm'' False,
     plain_tool ''rubymine'' ''RubyMine'' ''rubymine'' False,
     plain_tool ''datagrip'' ''DataGrip'' ''datagrip'' True,
     plain_tool ''fleet'' ''Fleet'' ''fleet'' False,
     plain_tool ''aqua'' ''Aqua'' ''aqua'' False,
     plain_tool ''rustrover'' ''RustRover'' ''rustrover'' False,
     (plain_tool ''terminal'' ''Windows Terminal'' ''wt'' True)
       \<lparr>launchArgs := Some ''-d''\<rparr>,
     plain_tool ''explorer'' ''Explorer'' ''explorer'' True ]"

section \<open>Config store (config.ts)\<close>

text \<open>
  The configuration directory holds the four documents. A file is absent, present but
  unreadable (\<open>readFileSync\<close> throws), present with text that \<open>JSON.parse\<close>
  rejects, or present with text that \<open>JSON.parse\<close> reads as a value. \<open>JSON.stringify\<close>
  and \<open>JSON.parse\<close> are built-ins of the platform: what \<open>JSON.stringify\<close> writes
  for a value is text that \<open>JSON.parse\<close> reads back as that value's JSON form, so a
  written file is stored as \<open>Json\<close> of that form. Messages logged by the loaders are
  not part of the model. A write fails on a read-only store. The model follows the
  config.ts that keeps the documents in the user's configuration directory and creates
  it on demand; the other config.ts of the repository keeps them beside the program and
  has no \<open>ensureConfigDir\<close>, and is otherwise the same.
\<close>

datatype config_path = CONFIG_PATH | TOOLS_PATH | RECENTS_PATH | SETTINGS_PATH

datatype file_state = Absent | Unreadable | Malformed | Json json

record fs =
  config_dir :: bool
  files :: "config_path \<Rightarrow> file_state"
  read_only :: bool

datatype error = IOError | SyntaxError | ZodError | TypeError

definition existsSync :: "fs \<Rightarrow> config_path \<Rightarrow> bool" where
  "existsSync s p = (config_dir s \<and> files s p \<noteq> Absent)"

text \<open>\<open>JSON.parse(readFileSync(path, "utf-8"))\<close>\<close>

definition read_json :: "fs \<Rightarrow> config_path \<Rightarrow> error + json" where
  "read_json s p =
     (if \<not> config_dir s then Inl IOError
      else case files s p of
             Absent \<Rightarrow> Inl IOError
           | Unreadable \<Rightarrow> Inl IOError
           | Malformed \<Rightarrow> Inl SyntaxError
           | Json j \<Rightarrow> Inr j)"

definition ensureConfigDir :: "fs \<Rightarrow> error + fs" where
  "ensureConfigDir s =
     (if config_dir s then Inr s
      else if read_only s then Inl IOError
      else Inr (s\<lparr>config_dir := True, files := (\<lambda>_. Absent)\<rparr>))"

definition writeFileSync :: "fs \<Rightarrow> config_path \<Rightarrow> json \<Rightarrow> error + fs" where
  "writeFileSync s p j =
     (if read_only s \<or> \<not> config_dir s then Inl IOError
      else Inr (s\<lparr>files := (files s)(p := Json j)\<rparr>))"

definition loadProjects :: "fs \<Rightarrow> Project list" where
  "loadProjects s =
     (if \<not> existsSync s CONFIG_PATH then getDefaultProjects
      else case read_json s CONFIG_PATH of
             Inl e \<Rightarrow> getDefaultProjects
           | Inr data \<Rightarrow>
               (case ConfigSchema data of
                  None \<Rightarrow> getDefaultProjects
                | Some projects \<Rightarrow>
                    if length projects > 0 then projects else getDefaultProjects))"

text \<open>
  \<open>loadRecents\<close> returns what \<open>JSON.parse\<close> yields, with no schema in between, so
  its result is a \<open>json\<close> value; the empty array is its default.
\<close>

definition loadRecents :: "fs \<Rightarrow> json" where
  "loadRecents s =
     (if \<not> existsSync s RECENTS_PATH then JArray []
      else case read_json s RECENTS_PATH of
             Inl e \<Rightarrow> JArray []
           | Inr data \<Rightarrow> data)"

definition loadTools :: "fs \<Rightarrow> Tool list" where
  "loadTools s =
     (if \<not> existsSync s TOOLS_PATH then DEFAULT_TOOLS
      else case read_json s TOOLS_PATH of
             Inl e \<Rightarrow> DEFAULT_TOOLS
           | Inr data \<Rightarrow>
               (case ToolsConfigSchema data of
                  None \<Rightarrow> DEFAULT_TOOLS
                | Some tools \<Rightarrow> if length tools > 0 then tools else DEFAULT_TOOLS))"

definition loadSettings :: "fs \<Rightarrow> Settings" where
  "loadSettings s =
     (if \<not> existsSync s SETTINGS_PATH then DEFAULT_SETTINGS
      else case read_json s SETTINGS_PATH of
             Inl e \<Rightarrow> DEFAULT_SETTINGS
           | Inr data \<Rightarrow>
               (case SettingsSchema (Some data) of
                  None \<Rightarrow> DEFAULT_SETTINGS
                | Some settings \<Rightarrow> settings))"

subsection \<open>What \<open>JSON.stringify\<close> writes\<close>

definition opt_prop :: "string \<Rightarrow> ('a \<Rightarrow> json) \<Rightarrow> 'a option \<Rightarrow> (string \<times> json) list" where
  "opt_prop k f v = (case v of None \<Rightarrow> [] | Some x \<Rightarrow> [(k, f x)])"

definition workspace_json :: "Workspace \<Rightarrow> json" where
  "workspace_json w = JObject [(''name'', JString (ws_name w)), (''path'', JString (ws_path w))]"

definition project_json :: "Project \<Rightarrow> json" where
  "project_json p =
     JObject ([(''name'', JString (project_name p)),
               (''path'', JString (project_path p)),
               (''workspaces'', JArray (map workspace_json (workspaces p)))]
              @ opt_prop ''command'' JString (command p))"

definition tool_json :: "Tool \<Rightarrow> json" where
  "tool_json t =
     JObject ([(''id'', JString (tool_id t)),
               (''name'', JString (tool_name t)),
               (''executable'', JString (executable t))]
              @ opt_prop ''versionArgs'' JString (versionArgs t)
              @ opt_prop ''updateCommand'' JString (updateCommand t)
              @ [(''enabled'', JBool (enabled t)),
                 (''launchInTerminal'', JBool (launchInTerminal t))]
              @ opt_prop ''supportsAdmin'' JBool (supportsAdmin t)
              @ opt_prop ''launchArgs'' JString (launchArgs t)
              @ opt_prop ''projectFilePatterns'' (\<lambda>ps. JArray (map JString ps))
                  (projectFilePatterns t)
              @ opt_prop ''requiresAdmin'' JBool (requiresAdmin t))"

definition save_json :: "fs \<Rightarrow> config_path \<Rightarrow> json \<Rightarrow> error + fs" where
  "save_json s p j =
     (case ensureConfigDir s of Inl e \<Rightarrow> Inl e | Inr s' \<Rightarrow> writeFileSync s' p j)"

definition saveProjects :: "fs \<Rightarrow> Project list \<Rightarrow> error + fs" where
  "saveProjects s projects = save_json s CONFIG_PATH (JArray (map project_json projects))"

definition saveTools :: "fs \<Rightarrow> Tool list \<Rightarrow> error + fs" where
  "saveTools s tools = save_json s TOOLS_PATH (JArray (map tool_json tools))"

text \<open>
  \<open>addRecent\<close> filters the loaded value; only an array has \<open>filter\<close>, any other
  value raises a TypeError. \<open>r !== projectName\<close> holds for every element that is not
  the string \<open>projectName\<close> itself.
\<close>

definition addRecent :: "fs \<Rightarrow> string \<Rightarrow> error + fs" where
  "addRecent s projectName =
     (case ensureConfigDir s of
        Inl e \<Rightarrow> Inl e
      | Inr s' \<Rightarrow>
          (case loadRecents s' of
             JArray rs \<Rightarrow>
               (let recents = filter (\<lambda>r. r \<noteq> JString projectName) rs;
                    recents = JString projectName # recents;
                    trimmed = take 10 recents
                in writeFileSync s' RECENTS_PATH (JArray trimmed))
           | _ \<Rightarrow> Inl TypeError))"

section \<open>Project launcher (lib/launcher.ts)\<close>

text \<open>
  The launcher talks to two collaborators: the glob engine \<open>fg\<close> and the process
  spawner. Both are inputs of the model. \<open>fg\<close> answers a call with the matching
  paths in its enumeration order, or rejects with a message.

  \<open>spawn\<close> of \<open>node:child_process\<close> answers a call in one of three ways. The child
  is started. Or the call throws at once, which it does for arguments it refuses (an
  empty command, a string holding a null byte); only this is an exception that a
  \<open>try\<close> around the call sees. Or the call returns a child and the failure to start
  it (executable not found, permission denied) arrives afterwards as an \<open>error\<close>
  event on the child. \<open>spawnDetached\<close> attaches no listener for that event, so the
  event is an uncaught error that ends the process; it arrives while \<open>launchTool\<close>
  waits, after the spawn call has returned.

  Every spawn of the program is detached with its standard streams ignored; these
  constant options are not repeated in \<open>spawn_call\<close>. \<open>path_exists\<close> is
  \<open>existsSync\<close> on a project path. Colour codes around logged text are left out.
\<close>

record glob_call =
  patterns :: "string list"
  cwd :: string
  absolute :: bool
  onlyFiles :: bool
  deep :: nat

record spawn_call =
  sp_command :: string
  sp_args :: "string list"
  sp_cwd :: string

datatype spawn_result = Started | Throws string | ErrorEvent string

record env =
  fg :: "glob_call \<Rightarrow> string + string list"
  spawn :: "spawn_call \<Rightarrow> spawn_result"
  path_exists :: "string \<Rightarrow> bool"

text \<open>
  What a launch does, in order. \<open>Uncaught msg\<close> is the end of the process on an
  \<open>error\<close> event without a listener; nothing follows it.
\<close>

datatype event =
  LogInfo string
| LogSuccess string
| LogError string
| LogWarn string
| Spawn spawn_call
| Sleep nat
| Prompt string
| Uncaught string

definition findProjectFile :: "env \<Rightarrow> string \<Rightarrow> string list \<Rightarrow> string + string option" where
  "findProjectFile e workspacePath pats =
     (case fg e \<lparr>patterns = pats, cwd = workspacePath, absolute = True,
                  onlyFiles = True, deep = 1\<rparr> of
        Inl err \<Rightarrow> Inl err
      | Inr fls \<Rightarrow> Inr (if length fls > 0 then Some (fls ! 0) else None))"

text \<open>The call made, and how \<open>spawn\<close> answers it.\<close>

definition spawnDetached :: "env \<Rightarrow> string \<Rightarrow> string list \<Rightarrow> string \<Rightarrow> spawn_call \<times> spawn_result" where
  "spawnDetached e c as d =
     (let call = \<lparr>sp_command = c, sp_args = as, sp_cwd = d\<rparr> in (call, spawn e call))"

text \<open>
  Lines 40--47 of \<open>launchTool\<close>: the value of the variable \<open>targetPath\<close> and the
  line logged on the way, or the message of a rejected glob call. An empty string is
  falsy in \<open>if (projectFile)\<close>.
\<close>

definition targetPath :: "env \<Rightarrow> Tool \<Rightarrow> string \<Rightarrow> string + (string \<times> event list)" where
  "targetPath e tool workspacePath =
     (case projectFilePatterns tool of
        None \<Rightarrow> Inr (workspacePath, [])
      | Some pats \<Rightarrow>
          if length pats > 0 then
            (case findProjectFile e workspacePath pats of
               Inl err \<Rightarrow> Inl err
             | Inr None \<Rightarrow> Inr (workspacePath, [])
             | Inr (Some projectFile) \<Rightarrow>
                 if projectFile \<noteq> '''' then
                   Inr (projectFile, [LogInfo (''Found project file: '' @ projectFile)])
                 else Inr (workspacePath, []))
          else Inr (workspacePath, []))"

text \<open>
  Lines 49--76: the dispatch on the launch mode, as the arguments handed to
  \<open>spawnDetached\<close>. \<open>tool.requiresAdmin\<close> and \<open>tool.launchArgs\<close> are tested for
  truthiness.
\<close>

definition dispatch :: "Tool \<Rightarrow> string \<Rightarrow> string \<Rightarrow> string \<times> string list \<times> string" where
  "dispatch tool workspacePath target =
     (if launchInTerminal tool then
        (if requiresAdmin tool = Some True then
           (''gsudo'', [''wt'', ''-d'', workspacePath, ''pwsh'', ''-NoExit'', ''-Command'',
                        executable tool], workspacePath)
         else
           (''wt'', [''-d'', workspacePath, ''pwsh'', ''-NoExit'', ''-Command'',
                     executable tool], workspacePath))
      else if tool_id tool = ''explorer'' then
        (''explorer'', [workspacePath], workspacePath)
      else if tool_id tool = ''terminal'' then
        (''wt'', [''-d'', workspacePath], workspacePath)
      else if tool_id tool = ''gitbash'' then
        (''git-bash'', [''--cd='' @ workspacePath], workspacePath)
      else
        (executable tool,
         (case launchArgs tool of
            None \<Rightarrow> []
          | Some a \<Rightarrow> if a \<noteq> '''' then [a] else []) @ [target],
         workspacePath))"

text \<open>
  How the \<open>try\<close> block ends: it runs to its end, it throws, or the process ends
  under it.
\<close>

datatype block_end = Done | Threw string | Died

text \<open>
  The \<open>try\<close> block: the events it emits and how it ends. After a spawn call that
  returns, the block waits 500 ms; an \<open>error\<close> event of the child arrives during that
  wait.
\<close>

definition try_launch :: "env \<Rightarrow> Tool \<Rightarrow> string \<Rightarrow> event list \<times> block_end" where
  "try_launch e tool workspacePath =
     (case targetPath e tool workspacePath of
        Inl err \<Rightarrow> ([], Threw err)
      | Inr (target, found) \<Rightarrow>
          (case dispatch tool workspacePath target of (c, as, d) \<Rightarrow>
           case spawnDetached e c as d of
             (call, Throws err) \<Rightarrow> (found @ [Spawn call], Threw err)
           | (call, ErrorEvent err) \<Rightarrow> (found @ [Spawn call, Uncaught err], Died)
           | (call, Started) \<Rightarrow>
               (found @ [Spawn call, Sleep 500,
                         LogSuccess (tool_name tool @ '' launched'')], Done)))"

text \<open>
  The \<open>catch\<close> block, with the prompt that follows it. An \<open>error\<close> event of the
  fallback child arrives while the prompt waits for its answer.
\<close>

definition catch_launch :: "env \<Rightarrow> Tool \<Rightarrow> string \<Rightarrow> string \<Rightarrow> event list" where
  "catch_launch e tool workspacePath err =
     LogError (''Failed to launch '' @ tool_name tool @ '': '' @ err) #
     (if launchInTerminal tool then
        LogWarn ''Trying fallback launch...'' #
        (case spawnDetached e ''wt'' [''-d'', workspacePath, ''pwsh'', ''-NoExit''] workspacePath of
           (call, Started) \<Rightarrow> [Spawn call, Prompt ''Press Enter to continue...'']
         | (call, Throws err2) \<Rightarrow>
             [Spawn call, LogError (''Fallback failed: '' @ err2),
              Prompt ''Press Enter to continue...'']
         | (call, ErrorEvent err2) \<Rightarrow>
             [Spawn call, Prompt ''Press Enter to continue...'', Uncaught err2])
      else [Prompt ''Press Enter to continue...''])"

definition launchTool :: "env \<Rightarrow> Tool \<Rightarrow> string \<Rightarrow> event list" where
  "launchTool e tool workspacePath =
     LogInfo (''Launching '' @ tool_name tool @ ''...'') #
     (case try_launch e tool workspacePath of
        (evs, Done) \<Rightarrow> evs
      | (evs, Died) \<Rightarrow> evs
      | (evs, Threw err) \<Rightarrow> evs @ catch_launch e tool workspacePath err)"

text \<open>The spawn calls of a trace, in order.\<close>

fun spawns :: "event list \<Rightarrow> spawn_call list" where
  "spawns [] = []"
| "spawns (Spawn c # evs) = c # spawns evs"
| "spawns (_ # evs) = spawns evs"

section \<open>Launch flow and quick launch (flows/launch.ts)\<close>

text \<open>
  \<open>toLowerCase\<close> is modelled on ASCII letters; \<open>string_includes\<close> (the
  method \<open>includes\<close> of a string) is containment as a contiguous substring.
\<close>

definition lower_char :: "char \<Rightarrow> char" where
  "lower_char c =
     (case map_of (zip ''ABCDEFGHIJKLMNOPQRSTUVWXYZ'' ''abcdefghijklmnopqrstuvwxyz'') c of
        None \<Rightarrow> c
      | Some l \<Rightarrow> l)"

definition toLowerCase :: "string \<Rightarrow> string" where
  "toLowerCase = map lower_char"

definition string_includes :: "string \<Rightarrow> string \<Rightarrow> bool" where
  "string_includes s q = sublist q s"

text \<open>The tools offered by \<open>launchFlow\<close> for selection (line 143).\<close>

definition launchFlow_tools :: "fs \<Rightarrow> Tool list" where
  "launchFlow_tools s = filter enabled (loadTools s)"

text \<open>Lines 177--181 of \<open>quickLaunch\<close>.\<close>

definition find_project :: "Project list \<Rightarrow> string \<Rightarrow> Project option" where
  "find_project projects projectQuery =
     find (\<lambda>p. toLowerCase (project_name p) = toLowerCase projectQuery \<or>
                string_includes (toLowerCase (project_name p)) (toLowerCase projectQuery))
       projects"

text \<open>
  Lines 196--207: the chosen tool. \<open>Undefined\<close> is \<open>tools[0]\<close> of an empty array.
  An absent or empty \<open>toolId\<close> is falsy.
\<close>

datatype tool_choice = NotFound | Undefined | Chosen Tool

definition first_tool :: "Tool list \<Rightarrow> tool_choice" where
  "first_tool tools = (case tools of [] \<Rightarrow> Undefined | t # _ \<Rightarrow> Chosen t)"

definition find_tool :: "Tool list \<Rightarrow> string option \<Rightarrow> tool_choice" where
  "find_tool tools toolId =
     (case toolId of
        None \<Rightarrow> first_tool tools
      | Some tid \<Rightarrow>
          if tid \<noteq> '''' then
            (case find (\<lambda>t. tool_id t = tid \<or>
                            string_includes (toLowerCase (tool_name t)) (toLowerCase tid)) tools of
               None \<Rightarrow> NotFound
             | Some t \<Rightarrow> Chosen t)
          else first_tool tools)"

text \<open>
  How a call of \<open>quickLaunch\<close> ends: with one of its error reports, with the launch of
  a tool on a project, or with an exception (\<open>addRecent\<close> failing, or \<open>launchTool\<close>
  reading the name of an undefined tool).
\<close>

datatype outcome =
  ProjectNotFound
| PathNotFound Project
| ToolNotFound
| Launched Project Tool "event list"
| Thrown error

definition quickLaunch :: "env \<Rightarrow> fs \<Rightarrow> Project list \<Rightarrow> string \<Rightarrow> string option \<Rightarrow> fs \<times> outcome" where
  "quickLaunch e s projects projectQuery toolId =
     (case find_project projects projectQuery of
        None \<Rightarrow> (s, ProjectNotFound)
      | Some project \<Rightarrow>
          if \<not> path_exists e (project_path project) then (s, PathNotFound project)
          else
            (case find_tool (filter enabled (loadTools s)) toolId of
               NotFound \<Rightarrow> (s, ToolNotFound)
             | choice \<Rightarrow>
                 (case addRecent s (project_name project) of
                    Inl err \<Rightarrow> (s, Thrown err)
                  | Inr s' \<Rightarrow>
                      (case choice of
                         Chosen tool \<Rightarrow>
                           (s', Launched project tool (launchTool e tool (project_path project)))
                       | _ \<Rightarrow> (s', Thrown TypeError)))))"

text \<open>
  The resolution that looks for an exact case-insensitive match first and for a
  containing name only when there is none; it is compared with \<open>find_project\<close> below.
\<close>

definition find_project_exact_first :: "Project list \<Rightarrow> string \<Rightarrow> Project option" where
  "find_project_exact_first projects projectQuery =
     (case find (\<lambda>p. toLowerCase (project_name p) = toLowerCase projectQuery) projects of
        Some p \<Rightarrow> Some p
      | None \<Rightarrow>
          find (\<lambda>p. string_includes (toLowerCase (project_name p)) (toLowerCase projectQuery))
            projects)"

section \<open>Workspace management (flows/manage.ts)\<close>

text \<open>
  \<open>manageWorkspaces\<close> is a menu loop. Its run is driven by the user's answers, given
  here as a list with one entry per round of the loop; a prompt is answered with a value
  or cancelled. The loop ends at \<open>Back\<close> (or a cancelled menu), and a list that ends
  earlier is read as the user leaving there. The project being edited is the entry
  \<open>i\<close> of the array that \<open>saveProjects\<close> writes; every project owns its workspaces
  array. The result of the folder browser is an answer as well (\<open>None\<close> is its
  \<open>null\<close>).
\<close>

datatype 'a answer = Cancel | Answer 'a

datatype ws_edit =
  EditBack
| Rename "string answer"
| ChangePath "string answer"
| Delete "bool answer"

datatype ws_menu =
  Back
| Add "string answer" "string option"
| Edit nat ws_edit

definition set_workspaces :: "Project list \<Rightarrow> nat \<Rightarrow> Workspace list \<Rightarrow> Project list" where
  "set_workspaces ps i ws = ps[i := (ps ! i)\<lparr>workspaces := ws\<rparr>]"

definition splice1 :: "'a list \<Rightarrow> nat \<Rightarrow> 'a list" where
  "splice1 xs i = take i xs @ drop (Suc i) xs"

text \<open>The in-memory array changed to \<open>ps\<close>, then \<open>saveProjects(allProjects)\<close>.\<close>

definition persist :: "fs \<Rightarrow> Project list \<Rightarrow> error + (fs \<times> Project list)" where
  "persist s ps = (case saveProjects s ps of Inl err \<Rightarrow> Inl err | Inr s' \<Rightarrow> Inr (s', ps))"

text \<open>
  One round of the loop. An edit entry names an index of the current workspaces; reading
  the name of a workspace outside the array raises a TypeError.
\<close>

fun workspace_round :: "fs \<Rightarrow> Project list \<Rightarrow> nat \<Rightarrow> ws_menu \<Rightarrow> error + (fs \<times> Project list)" where
  "workspace_round s ps i Back = Inr (s, ps)"
| "workspace_round s ps i (Add wsName wsPath) =
     (case wsName of
        Cancel \<Rightarrow> Inr (s, ps)
      | Answer n \<Rightarrow>
          if n = '''' then Inr (s, ps)
          else (case wsPath of
                  None \<Rightarrow> Inr (s, ps)
                | Some p \<Rightarrow>
                    persist s (set_workspaces ps i
                      (workspaces (ps ! i) @ [\<lparr>ws_name = n, ws_path = p\<rparr>]))))"
| "workspace_round s ps i (Edit wsIndex a) =
     (let wss = workspaces (ps ! i) in
      if wsIndex \<ge> length wss then Inl TypeError
      else
        (case a of
           EditBack \<Rightarrow> Inr (s, ps)
         | Rename newName \<Rightarrow>
             (case newName of
                Cancel \<Rightarrow> Inr (s, ps)
              | Answer n \<Rightarrow>
                  if n = '''' then Inr (s, ps)
                  else persist s (set_workspaces ps i
                         (wss[wsIndex := (wss ! wsIndex)\<lparr>ws_name := n\<rparr>])))
         | ChangePath newPath \<Rightarrow>
             (case newPath of
                Cancel \<Rightarrow> Inr (s, ps)
              | Answer p \<Rightarrow>
                  persist s (set_workspaces ps i
                    (wss[wsIndex := (wss ! wsIndex)\<lparr>ws_path := (if p = '''' then ''.'' else p)\<rparr>])))
         | Delete confirmed \<Rightarrow>
             if wsIndex = 0 then Inr (s, ps)
             else if confirmed = Answer True then
               persist s (set_workspaces ps i (splice1 wss wsIndex))
             else Inr (s, ps)))"

fun manageWorkspaces :: "fs \<Rightarrow> Project list \<Rightarrow> nat \<Rightarrow> ws_menu list \<Rightarrow> error + (fs \<times> Project list)" where
  "manageWorkspaces s ps i [] = Inr (s, ps)"
| "manageWorkspaces s ps i (m # ms) =
     (if m = Back then Inr (s, ps)
      else case workspace_round s ps i m of
             Inl err \<Rightarrow> Inl err
           | Inr (s', ps') \<Rightarrow> manageWorkspaces s' ps' i ms)"

section \<open>Commands named by the specification\<close>

text \<open>
  The terminal-emulator invocation that runs an executable as a shell command in the
  workspace directory, the elevation helper wrapped around a call, and the bare terminal
  at the workspace directory. The dispatch of \<open>launchTool\<close> is compared with these.
\<close>

definition terminal_call :: "string \<Rightarrow> string \<Rightarrow> spawn_call" where
  "terminal_call ws exe =
     \<lparr>sp_command = ''wt'', sp_args = [''-d'', ws, ''pwsh'', ''-NoExit'', ''-Command'', exe],
      sp_cwd = ws\<rparr>"

definition elevated_call :: "spawn_call \<Rightarrow> spawn_call" where
  "elevated_call c =
     \<lparr>sp_command = ''gsudo'', sp_args = sp_command c # sp_args c, sp_cwd = sp_cwd c\<rparr>"

definition fallback_call :: "string \<Rightarrow> spawn_call" where
  "fallback_call ws = \<lparr>sp_command = ''wt'', sp_args = [''-d'', ws, ''pwsh'', ''-NoExit''], sp_cwd = ws\<rparr>"

section \<open>Example inputs\<close>

definition empty_fs :: fs where
  "empty_fs = \<lparr>config_dir = True, files = (\<lambda>_. Absent), read_only = False\<rparr>"

definition with_file :: "config_path \<Rightarrow> file_state \<Rightarrow> fs" where
  "with_file p f = empty_fs\<lparr>files := (files empty_fs)(p := f)\<rparr>"

definition project_named :: "string \<Rightarrow> Project" where
  "project_named n =
     \<lparr>project_name = n, project_path = ''D:/code/'' @ n,
      workspaces = [\<lparr>ws_name = ''Root'', ws_path = ''.''\<rparr>], command = None\<rparr>"

text \<open>
  Environments: one where every command starts (gsudo included), one where no command
  is found, one where every spawn call throws at once, and one whose glob engine finds
  two solution files.
\<close>

definition quiet_env :: env where
  "quiet_env = \<lparr>fg = (\<lambda>_. Inr []), spawn = (\<lambda>_. Started), path_exists = (\<lambda>_. True)\<rparr>"

definition enoent_env :: env where
  "enoent_env =
     \<lparr>fg = (\<lambda>_. Inr []),
      spawn = (\<lambda>c. ErrorEvent (''Error: spawn '' @ sp_command c @ '' ENOENT'')),
      path_exists = (\<lambda>_. True)\<rparr>"

definition throwing_env :: env where
  "throwing_env =
     \<lparr>fg = (\<lambda>_. Inr []), spawn = (\<lambda>_. Throws ''TypeError: invalid argument''),
      path_exists = (\<lambda>_. True)\<rparr>"

definition sln_env :: env where
  "sln_env =
     \<lparr>fg = (\<lambda>_. Inr [''D:/code/app/foo.sln'', ''D:/code/app/bar.sln'']),
      spawn = (\<lambda>_. Started), path_exists = (\<lambda>_. True)\<rparr>"

text \<open>The entries \<open>claude\<close> and \<open>idea\<close> of the built-in catalog.\<close>

definition claude_catalog :: Tool where
  "claude_catalog =
     (plain_tool ''claude'' ''Claude Code'' ''claude'' True)
       \<lparr>versionArgs := Some ''--version'', updateCommand := Some ''claude update'',
        launchInTerminal := True, supportsAdmin := Some True\<rparr>"

definition idea_catalog :: Tool where
  "idea_catalog = plain_tool ''idea'' ''IntelliJ IDEA'' ''idea'' True"

definition rider :: Tool where
  "rider = (plain_tool ''rider'' ''Rider'' ''rider'' True)
             \<lparr>projectFilePatterns := Some [''*.slnx'', ''*.sln'']\<rparr>"

definition two_tools_fs :: fs where
  "two_tools_fs =
     with_file TOOLS_PATH (Json (JArray
       [JObject [(''id'', JString ''vs''), (''name'', JString ''Visual Studio''),
                 (''executable'', JString ''devenv''), (''enabled'', JBool False)],
        JObject [(''id'', JString ''idea''), (''name'', JString ''IntelliJ IDEA''),
                 (''executable'', JString ''idea'')]]))"

definition vs_off :: Tool where
  "vs_off = (plain_tool ''vs'' ''Visual Studio'' ''devenv'' False)\<lparr>supportsAdmin := Some False\<rparr>"

definition idea_on :: Tool where
  "idea_on = (plain_tool ''idea'' ''IntelliJ IDEA'' ''idea'' True)\<lparr>supportsAdmin := Some False\<rparr>"

text \<open>A round of the workspace menu that renames or repoints the workspace at index 0.\<close>

fun edits_root :: "ws_menu \<Rightarrow> bool" where
  "edits_root (Edit k (Rename n)) = (k = 0)"
| "edits_root (Edit k (ChangePath p)) = (k = 0)"
| "edits_root _ = False"

definition app3 :: Project where
  "app3 = (project_named ''app'')
            \<lparr>workspaces := [\<lparr>ws_name = ''Root'', ws_path = ''.''\<rparr>,
                            \<lparr>ws_name = ''Web'', ws_path = ''web''\<rparr>,
                            \<lparr>ws_name = ''Api'', ws_path = ''api''\<rparr>]\<rparr>"

section \<open>Properties of the config store\<close>

lemma DEFAULT_TOOLS_nonempty: "DEFAULT_TOOLS \<noteq> []"
  by (simp add: DEFAULT_TOOLS_def)

lemma loadTools_nonempty: "loadTools s \<noteq> []"
  by (auto simp: loadTools_def DEFAULT_TOOLS_nonempty split: sum.splits option.splits)

lemma those_map_encode:
  "(\<And>x. x \<in> set xs \<Longrightarrow> s (Some (enc x)) = Some x) \<Longrightarrow>
   those (map ((\<lambda>j. s (Some j)) \<circ> enc) xs) = Some xs"
  by (induction xs) auto

lemma WorkspaceSchema_workspace_json: "WorkspaceSchema (Some (workspace_json w)) = Some w"
  by (simp add: workspace_json_def)

lemma ProjectSchema_project_json: "ProjectSchema (Some (project_json p)) = Some p"
  by (cases "command p")
     (simp_all add: project_json_def opt_prop_def those_map_encode WorkspaceSchema_workspace_json)

lemma ConfigSchema_encode: "ConfigSchema (JArray (map project_json ps)) = Some ps"
  by (simp add: ConfigSchema_def those_map_encode ProjectSchema_project_json)

lemma save_json_ok: "\<not> read_only s \<Longrightarrow> \<exists>s'. save_json s p j = Inr s'"
  by (simp add: save_json_def ensureConfigDir_def writeFileSync_def)

lemma save_json_read: "save_json s p j = Inr s' \<Longrightarrow> config_dir s' \<and> files s' p = Json j"
  by (auto simp: save_json_def ensureConfigDir_def writeFileSync_def split: if_splits)

lemma loadProjects_after_save:
  assumes "saveProjects s projects = Inr s'"
  shows "loadProjects s' = projects"
proof -
  from assms have "config_dir s'"
    and "files s' CONFIG_PATH = Json (JArray (map project_json projects))"
    using save_json_read unfolding saveProjects_def by blast+
  then show ?thesis
    by (simp add: loadProjects_def existsSync_def read_json_def ConfigSchema_encode
        getDefaultProjects_def)
qed

subsection \<open>Fallback to the defaults\<close>

text \<open>
  The three loaders that validate against a schema return their default whenever the
  file is missing, unreadable, not JSON, or JSON that the schema rejects. \<open>loadRecents\<close>
  does so for a missing, unreadable or unparseable file. None of the loaders has an
  error result: they are total functions into the value type.
\<close>

lemma loadProjects_default:
  assumes "\<not> existsSync s CONFIG_PATH \<or> files s CONFIG_PATH = Unreadable \<or>
           files s CONFIG_PATH = Malformed \<or>
           (\<exists>j. files s CONFIG_PATH = Json j \<and> ConfigSchema j = None)"
  shows "loadProjects s = getDefaultProjects"
  using assms by (auto simp: loadProjects_def read_json_def split: sum.splits)

lemma loadTools_default:
  assumes "\<not> existsSync s TOOLS_PATH \<or> files s TOOLS_PATH = Unreadable \<or>
           files s TOOLS_PATH = Malformed \<or>
           (\<exists>j. files s TOOLS_PATH = Json j \<and> ToolsConfigSchema j = None)"
  shows "loadTools s = DEFAULT_TOOLS"
  using assms by (auto simp: loadTools_def read_json_def split: sum.splits)

lemma loadSettings_default:
  assumes "\<not> existsSync s SETTINGS_PATH \<or> files s SETTINGS_PATH = Unreadable \<or>
           files s SETTINGS_PATH = Malformed \<or>
           (\<exists>j. files s SETTINGS_PATH = Json j \<and> SettingsSchema (Some j) = None)"
  shows "loadSettings s = DEFAULT_SETTINGS"
  using assms by (auto simp: loadSettings_def read_json_def split: sum.splits)

lemma loadRecents_default:
  assumes "\<not> existsSync s RECENTS_PATH \<or> files s RECENTS_PATH = Unreadable \<or>
           files s RECENTS_PATH = Malformed"
  shows "loadRecents s = JArray []"
  using assms by (auto simp: loadRecents_def read_json_def split: sum.splits)

lemma loadRecents_parsed:
  assumes "config_dir s" and "files s RECENTS_PATH = Json j"
  shows "loadRecents s = j"
  using assms by (simp add: loadRecents_def existsSync_def read_json_def)

text \<open>
  C3. Every load function returns its documented default when its file is absent, not
  JSON, or fails validation. For recents this fails: a recents file that holds JSON other
  than an array of names, here the number 42, is returned as it is, where the default
  would be the empty array; \<open>addRecent\<close> then raises a TypeError on it. The theorem
  evaluates the code at that file.
\<close>

theorem loadRecents_returns_unvalidated_json:
  "loadRecents (with_file RECENTS_PATH (Json (JNumber 42))) = JNumber 42
   \<and> loadRecents (with_file RECENTS_PATH (Json (JNumber 42))) \<noteq> JArray []
   \<and> addRecent (with_file RECENTS_PATH (Json (JNumber 42))) ''app'' = Inl TypeError"
  by (simp add: loadRecents_def existsSync_def read_json_def with_file_def empty_fs_def
      addRecent_def ensureConfigDir_def)

subsection \<open>Projects round trip\<close>

text \<open>
  C7. Saving a Project array and loading it again yields the same array: the same
  projects in the same order, with equal names, paths, workspaces and commands. The
  save succeeds on a writable configuration directory.
\<close>

theorem saveProjects_loadProjects_roundtrip:
  "\<not> read_only s \<Longrightarrow>
     (\<exists>s'. saveProjects s projects = Inr s') \<and>
     (\<forall>s'. saveProjects s projects = Inr s' \<longrightarrow> loadProjects s' = projects)"
proof (intro conjI allI impI)
  assume "\<not> read_only s"
  then show "\<exists>s'. saveProjects s projects = Inr s'"
    unfolding saveProjects_def by (rule save_json_ok)
next
  fix s' assume "saveProjects s projects = Inr s'"
  then show "loadProjects s' = projects" by (rule loadProjects_after_save)
qed

theorem saveProjects_loadProjects_roundtrip_witness:
  "\<not> read_only empty_fs \<and>
   saveProjects empty_fs
     [project_named ''app'', (project_named ''lib'')\<lparr>workspaces := [], command := Some ''make''\<rparr>]
   = Inr (with_file CONFIG_PATH (Json (JArray (map project_json
     [project_named ''app'', (project_named ''lib'')\<lparr>workspaces := [], command := Some ''make''\<rparr>]))))
   \<and> loadProjects (with_file CONFIG_PATH (Json (JArray (map project_json
     [project_named ''app'', (project_named ''lib'')\<lparr>workspaces := [], command := Some ''make''\<rparr>]))))
   = [project_named ''app'', (project_named ''lib'')\<lparr>workspaces := [], command := Some ''make''\<rparr>]"
proof -
  let ?ps = "[project_named ''app'',
              (project_named ''lib'')\<lparr>workspaces := [], command := Some ''make''\<rparr>]"
  have w: "\<not> read_only empty_fs" by (simp add: empty_fs_def)
  have sv: "saveProjects empty_fs ?ps
            = Inr (with_file CONFIG_PATH (Json (JArray (map project_json ?ps))))"
    by (simp add: saveProjects_def save_json_def ensureConfigDir_def writeFileSync_def
        empty_fs_def with_file_def)
  from saveProjects_loadProjects_roundtrip [OF w, of ?ps] sv
  have "loadProjects (with_file CONFIG_PATH (Json (JArray (map project_json ?ps)))) = ?ps"
    by blast
  with w sv show ?thesis by blast
qed

subsection \<open>The tool catalog is never empty\<close>

text \<open>
  C10. A tools file that holds the empty array makes \<open>loadTools\<close> return the built-in
  catalog; no reload ever yields an empty catalog; and saving the empty list and loading
  again yields the built-in catalog, not the empty list.
\<close>

theorem loadTools_empty_array_gives_defaults:
  "(config_dir s \<and> files s TOOLS_PATH = Json (JArray []) \<longrightarrow> loadTools s = DEFAULT_TOOLS)
   \<and> loadTools s \<noteq> []
   \<and> (\<forall>s'. saveTools s [] = Inr s' \<longrightarrow> loadTools s' = DEFAULT_TOOLS \<and> loadTools s' \<noteq> [])
   \<and> (\<not> read_only s \<longrightarrow> (\<exists>s'. saveTools s [] = Inr s'))"
proof (intro conjI allI impI)
  assume "config_dir s \<and> files s TOOLS_PATH = Json (JArray [])"
  then show "loadTools s = DEFAULT_TOOLS"
    by (simp add: loadTools_def existsSync_def read_json_def ToolsConfigSchema_def)
next
  show "loadTools s \<noteq> []" by (rule loadTools_nonempty)
next
  fix s' assume "saveTools s [] = Inr s'"
  then have "config_dir s'" "files s' TOOLS_PATH = Json (JArray [])"
    using save_json_read unfolding saveTools_def by fastforce+
  then show "loadTools s' = DEFAULT_TOOLS"
    by (simp add: loadTools_def existsSync_def read_json_def ToolsConfigSchema_def)
next
  fix s' show "loadTools s' \<noteq> []" by (rule loadTools_nonempty)
next
  assume "\<not> read_only s"
  then show "\<exists>s'. saveTools s [] = Inr s'"
    unfolding saveTools_def by (rule save_json_ok)
qed

theorem loadTools_empty_array_gives_defaults_witness:
  "saveTools empty_fs [] = Inr (with_file TOOLS_PATH (Json (JArray [])))
   \<and> loadTools (with_file TOOLS_PATH (Json (JArray []))) = DEFAULT_TOOLS
   \<and> DEFAULT_TOOLS \<noteq> []"
proof -
  have sv: "saveTools empty_fs [] = Inr (with_file TOOLS_PATH (Json (JArray [])))"
    by (simp add: saveTools_def save_json_def ensureConfigDir_def writeFileSync_def
        empty_fs_def with_file_def)
  from loadTools_empty_array_gives_defaults [of empty_fs] sv
  have "loadTools (with_file TOOLS_PATH (Json (JArray []))) = DEFAULT_TOOLS" by blast
  with sv DEFAULT_TOOLS_nonempty show ?thesis by blast
qed

subsection \<open>Recents\<close>

lemma take_filter_idem:
  "take 10 (n # filter (\<lambda>r. r \<noteq> n) (take 10 (n # filter (\<lambda>r. r \<noteq> n) rs)))
   = take 10 (n # filter (\<lambda>r. r \<noteq> n) rs)"
proof -
  let ?xs = "filter (\<lambda>r. r \<noteq> n) rs"
  have "filter (\<lambda>r. r \<noteq> n) (take 9 ?xs) = take 9 ?xs"
    by (rule filter_True) (auto dest: in_set_takeD)
  then show ?thesis by simp
qed

lemma count_front:
  "count_list (take 10 (n # filter (\<lambda>r. r \<noteq> n) rs)) n = 1"
proof -
  have "n \<notin> set (take 9 (filter (\<lambda>r. r \<noteq> n) rs))"
    by (auto dest: in_set_takeD)
  then have "count_list (take 9 (filter (\<lambda>r. r \<noteq> n) rs)) n = 0"
    by (simp add: count_list_0_iff)
  then show ?thesis by simp
qed

lemma addRecent_in_dir:
  assumes "config_dir s" and "\<not> read_only s" and "loadRecents s = JArray rs"
  shows "addRecent s name =
           Inr (s\<lparr>files := (files s)(RECENTS_PATH :=
                  Json (JArray (take 10 (JString name # filter (\<lambda>r. r \<noteq> JString name) rs))))\<rparr>)"
  using assms by (simp add: addRecent_def ensureConfigDir_def writeFileSync_def)

lemma addRecent_no_dir:
  assumes "\<not> config_dir s" and "\<not> read_only s"
  shows "addRecent s name =
           Inr (s\<lparr>config_dir := True,
                  files := (\<lambda>_. Absent)(RECENTS_PATH := Json (JArray [JString name]))\<rparr>)"
  using assms
  by (simp add: addRecent_def ensureConfigDir_def writeFileSync_def loadRecents_def
      existsSync_def)

lemma addRecent_result:
  assumes "loadRecents s = JArray rs" and "\<not> read_only s"
  shows "\<exists>s'. addRecent s name = Inr s' \<and> config_dir s' \<and> \<not> read_only s' \<and>
              files s' RECENTS_PATH =
                Json (JArray (take 10 (JString name # filter (\<lambda>r. r \<noteq> JString name) rs)))"
proof (cases "config_dir s")
  case True
  with assms show ?thesis by (simp add: addRecent_in_dir)
next
  case False
  then have "loadRecents s = JArray []" by (simp add: loadRecents_def existsSync_def)
  with assms have "rs = []" by simp
  with False assms show ?thesis by (simp add: addRecent_no_dir)
qed

lemma addRecent_again:
  assumes "config_dir s" and "\<not> read_only s"
    and "files s RECENTS_PATH =
           Json (JArray (take 10 (JString name # filter (\<lambda>r. r \<noteq> JString name) rs)))"
  shows "addRecent s name = Inr s"
proof -
  let ?ys = "take 10 (JString name # filter (\<lambda>r. r \<noteq> JString name) rs)"
  from assms have lr: "loadRecents s = JArray ?ys" by (simp add: loadRecents_parsed)
  have "addRecent s name =
      Inr (s\<lparr>files := (files s)(RECENTS_PATH :=
             Json (JArray (take 10 (JString name # filter (\<lambda>r. r \<noteq> JString name) ?ys))))\<rparr>)"
    by (rule addRecent_in_dir [OF assms(1) assms(2) lr])
  also have "take 10 (JString name # filter (\<lambda>r. r \<noteq> JString name) ?ys) = ?ys"
    by (rule take_filter_idem)
  also have "s\<lparr>files := (files s)(RECENTS_PATH := Json (JArray ?ys))\<rparr> = s"
    using assms(3) by (simp add: fun_upd_idem)
  finally show ?thesis .
qed

text \<open>
  C4. When the persisted recents are a list (the file is missing or unparseable, or it
  holds an array) and the directory is writable, \<open>addRecent name\<close> persists a list
  that has \<open>name\<close> at index 0 and nowhere else and at most 10 entries, and a second
  \<open>addRecent name\<close> leaves the store as it is.
\<close>

theorem addRecent_front_once_capped:
  assumes "loadRecents s = JArray rs" and "\<not> read_only s"
  shows "\<exists>s' ys. addRecent s name = Inr s'
           \<and> files s' RECENTS_PATH = Json (JArray ys)
           \<and> loadRecents s' = JArray ys
           \<and> ys = take 10 (JString name # filter (\<lambda>r. r \<noteq> JString name) rs)
           \<and> ys \<noteq> [] \<and> ys ! 0 = JString name
           \<and> count_list ys (JString name) = 1
           \<and> length ys \<le> 10
           \<and> addRecent s' name = Inr s'"
proof -
  let ?ys = "take 10 (JString name # filter (\<lambda>r. r \<noteq> JString name) rs)"
  from addRecent_result [OF assms, of name] obtain s'
    where s': "addRecent s name = Inr s'" "config_dir s'" "\<not> read_only s'"
      "files s' RECENTS_PATH = Json (JArray ?ys)"
    by blast
  have "loadRecents s' = JArray ?ys" using s' by (simp add: loadRecents_parsed)
  moreover have "?ys \<noteq> []" "?ys ! 0 = JString name" "length ?ys \<le> 10" by simp_all
  moreover have "count_list ?ys (JString name) = 1" by (rule count_front)
  moreover have "addRecent s' name = Inr s'" using s'(2-4) by (rule addRecent_again)
  ultimately show ?thesis using s' by blast
qed

theorem addRecent_front_once_capped_witness:
  "loadRecents (with_file RECENTS_PATH (Json (JArray [JString ''a'', JString ''b'', JString ''a''])))
     = JArray [JString ''a'', JString ''b'', JString ''a'']
   \<and> addRecent (with_file RECENTS_PATH (Json (JArray [JString ''a'', JString ''b'', JString ''a''])))
        ''b''
     = Inr (with_file RECENTS_PATH (Json (JArray [JString ''b'', JString ''a'', JString ''a''])))
   \<and> addRecent (with_file RECENTS_PATH (Json (JArray [JString ''b'', JString ''a'', JString ''a''])))
        ''b''
     = Inr (with_file RECENTS_PATH (Json (JArray [JString ''b'', JString ''a'', JString ''a''])))"
proof -
  let ?s = "with_file RECENTS_PATH (Json (JArray [JString ''a'', JString ''b'', JString ''a'']))"
  let ?t = "with_file RECENTS_PATH (Json (JArray [JString ''b'', JString ''a'', JString ''a'']))"
  have l: "loadRecents ?s = JArray [JString ''a'', JString ''b'', JString ''a'']"
    by (simp add: loadRecents_def existsSync_def read_json_def with_file_def empty_fs_def)
  have w: "\<not> read_only ?s" by (simp add: with_file_def empty_fs_def)
  have a: "addRecent ?s ''b'' = Inr ?t"
    by (simp add: addRecent_def ensureConfigDir_def writeFileSync_def loadRecents_def
        existsSync_def read_json_def with_file_def empty_fs_def)
  from addRecent_front_once_capped [OF l w, of "''b''"] a
  have "addRecent ?t ''b'' = Inr ?t" by auto
  with l a show ?thesis by blast
qed

section \<open>Properties of the launcher\<close>

lemma spawns_append: "spawns (xs @ ys) = spawns xs @ spawns ys"
  by (induction xs rule: spawns.induct) simp_all

lemma targetPath_found_spawns:
  "targetPath e tool ws = Inr (tp, found) \<Longrightarrow> spawns found = []"
  by (auto simp: targetPath_def split: option.splits if_splits sum.splits)

lemma spawn_call_eta:
  "\<lparr>sp_command = sp_command c, sp_args = sp_args c, sp_cwd = sp_cwd c\<rparr> = c"
  by (cases c) simp

text \<open>The trace of a launch whose \<open>try\<close> block runs to its end.\<close>

lemma launchTool_success:
  assumes "targetPath e tool ws = Inr (tp, found)"
    and "dispatch tool ws tp = (sp_command c, sp_args c, sp_cwd c)"
    and "spawn e c = Started"
  shows "launchTool e tool ws =
           LogInfo (''Launching '' @ tool_name tool @ ''...'') # found @
           [Spawn c, Sleep 500, LogSuccess (tool_name tool @ '' launched'')]"
  using assms
  by (simp add: launchTool_def try_launch_def spawnDetached_def Let_def spawn_call_eta)

text \<open>The trace of a launch whose spawn call throws.\<close>

lemma launchTool_threw:
  assumes "targetPath e tool ws = Inr (tp, found)"
    and "dispatch tool ws tp = (sp_command c, sp_args c, sp_cwd c)"
    and "spawn e c = Throws err"
  shows "launchTool e tool ws =
           LogInfo (''Launching '' @ tool_name tool @ ''...'') # found @
           [Spawn c] @ catch_launch e tool ws err"
  using assms
  by (simp add: launchTool_def try_launch_def spawnDetached_def Let_def spawn_call_eta)

text \<open>
  The trace of a launch whose child fails to start: the \<open>catch\<close> block is never
  entered, for any tool.
\<close>

lemma launchTool_died:
  assumes "targetPath e tool ws = Inr (tp, found)"
    and "dispatch tool ws tp = (sp_command c, sp_args c, sp_cwd c)"
    and "spawn e c = ErrorEvent err"
  shows "launchTool e tool ws =
           LogInfo (''Launching '' @ tool_name tool @ ''...'') # found @
           [Spawn c, Uncaught err]"
  using assms
  by (simp add: launchTool_def try_launch_def spawnDetached_def Let_def spawn_call_eta)

lemma launchTool_first_spawn:
  assumes "targetPath e tool ws = Inr (tp, found)"
    and "dispatch tool ws tp = (sp_command c, sp_args c, sp_cwd c)"
  shows "\<exists>rest. spawns (launchTool e tool ws) = c # rest"
proof (cases "spawn e c")
  case Started
  with assms show ?thesis
    by (simp add: launchTool_success spawns_append targetPath_found_spawns)
next
  case (Throws err)
  with assms show ?thesis
    by (simp add: launchTool_threw spawns_append targetPath_found_spawns)
next
  case (ErrorEvent err)
  with assms show ?thesis
    by (simp add: launchTool_died spawns_append targetPath_found_spawns)
qed

lemma dispatch_terminal:
  assumes "launchInTerminal tool"
  shows "dispatch tool ws tp =
           (let c = (if requiresAdmin tool = Some True
                     then elevated_call (terminal_call ws (executable tool))
                     else terminal_call ws (executable tool))
            in (sp_command c, sp_args c, sp_cwd c))"
  using assms by (simp add: dispatch_def terminal_call_def elevated_call_def)

text \<open>
  The dispatch of a terminal-mode tool as \<open>launchTool\<close> is written: gsudo around the
  terminal invocation when \<open>requiresAdmin\<close> is set on the tool, the terminal
  invocation alone otherwise.
\<close>

lemma launchTool_terminal_dispatch:
  assumes "launchInTerminal tool" and "targetPath e tool ws = Inr (tp, found)"
  shows "\<exists>rest. spawns (launchTool e tool ws) =
           (if requiresAdmin tool = Some True
            then elevated_call (terminal_call ws (executable tool))
            else terminal_call ws (executable tool)) # rest"
proof -
  let ?c = "if requiresAdmin tool = Some True
            then elevated_call (terminal_call ws (executable tool))
            else terminal_call ws (executable tool)"
  from assms(1) have "dispatch tool ws tp = (sp_command ?c, sp_args ?c, sp_cwd ?c)"
    by (simp add: dispatch_terminal Let_def)
  from launchTool_first_spawn [OF assms(2) this] show ?thesis .
qed

lemma targetPath_no_patterns:
  "projectFilePatterns tool = None \<Longrightarrow> targetPath e tool ws = Inr (ws, [])"
  by (simp add: targetPath_def)

subsection \<open>Tools of the registry and the admin flag\<close>

text \<open>
  The schema declares \<open>supportsAdmin\<close>, not \<open>requiresAdmin\<close>, and the built-in
  catalog sets only \<open>supportsAdmin\<close>. A tool that comes out of
  \<open>loadTools\<close> therefore has no \<open>requiresAdmin\<close>, and the dispatch of
  \<open>launchTool\<close>, which reads \<open>requiresAdmin\<close>, takes the branch without gsudo
  for it.
\<close>

lemma those_member:
  "those xs = Some ys \<Longrightarrow> y \<in> set ys \<Longrightarrow> Some y \<in> set xs"
  by (induction xs arbitrary: ys) (auto split: option.splits)

lemma ToolSchema_requiresAdmin: "ToolSchema j = Some t \<Longrightarrow> requiresAdmin t = None"
  by (cases j rule: ToolSchema.cases) (auto split: option.splits)

lemma ToolsConfigSchema_requiresAdmin:
  assumes "ToolsConfigSchema data = Some tools" and "t \<in> set tools"
  shows "requiresAdmin t = None"
proof (cases data)
  case (JArray xs)
  with assms have "Some t \<in> set (map (\<lambda>x. ToolSchema (Some x)) xs)"
    by (auto simp: ToolsConfigSchema_def dest: those_member)
  then obtain x where "ToolSchema (Some x) = Some t" by auto
  then show ?thesis by (rule ToolSchema_requiresAdmin)
qed (use assms in \<open>simp_all add: ToolsConfigSchema_def\<close>)

lemma DEFAULT_TOOLS_requiresAdmin: "t \<in> set DEFAULT_TOOLS \<Longrightarrow> requiresAdmin t = None"
  by (auto simp: DEFAULT_TOOLS_def plain_tool_def)

lemma loadTools_requiresAdmin: "t \<in> set (loadTools s) \<Longrightarrow> requiresAdmin t = None"
  by (auto simp: loadTools_def DEFAULT_TOOLS_requiresAdmin
      split: if_splits sum.splits option.splits dest: ToolsConfigSchema_requiresAdmin)

lemma registry_tool_not_elevated:
  assumes "t \<in> set (loadTools s)" and "launchInTerminal t"
  shows "dispatch t ws tp =
           (sp_command (terminal_call ws (executable t)),
            sp_args (terminal_call ws (executable t)),
            sp_cwd (terminal_call ws (executable t)))"
  using assms loadTools_requiresAdmin [OF assms(1)]
  by (simp add: dispatch_terminal Let_def)


text \<open>
  C5. For a tool with a non-empty \<open>projectFilePatterns\<close>, \<open>launchTool\<close> asks the glob
  engine for the files matching the patterns in the workspace directory, one level deep,
  as absolute paths. When the engine answers (its paths are never empty strings), the
  target is the first path of the answer, and the workspace directory when the answer is
  empty. An editor tool is spawned on that target.
\<close>

theorem launchTool_project_file_target:
  assumes "projectFilePatterns tool = Some pats" and "pats \<noteq> []"
    and "fg e \<lparr>patterns = pats, cwd = ws, absolute = True, onlyFiles = True, deep = 1\<rparr>
           = Inr fls"
    and "fls \<noteq> [] \<longrightarrow> hd fls \<noteq> ''''"
  shows "(\<exists>found. targetPath e tool ws = Inr (case fls of [] \<Rightarrow> ws | f # _ \<Rightarrow> f, found))
       \<and> (\<not> launchInTerminal tool \<and> tool_id tool \<notin> {''explorer'', ''terminal'', ''gitbash''}
            \<longrightarrow> (\<exists>rest. spawns (launchTool e tool ws) =
                   \<lparr>sp_command = executable tool,
                    sp_args = (case launchArgs tool of
                                 None \<Rightarrow> []
                               | Some a \<Rightarrow> if a \<noteq> '''' then [a] else [])
                              @ [case fls of [] \<Rightarrow> ws | f # _ \<Rightarrow> f],
                    sp_cwd = ws\<rparr> # rest))"
proof -
  let ?t = "case fls of [] \<Rightarrow> ws | f # _ \<Rightarrow> f"
  from assms have tp: "\<exists>found. targetPath e tool ws = Inr (?t, found)"
    by (cases fls) (simp_all add: targetPath_def findProjectFile_def)
  then obtain found where f: "targetPath e tool ws = Inr (?t, found)" ..
  {
    assume ed: "\<not> launchInTerminal tool \<and>
                tool_id tool \<notin> {''explorer'', ''terminal'', ''gitbash''}"
    let ?c = "\<lparr>sp_command = executable tool,
               sp_args = (case launchArgs tool of
                            None \<Rightarrow> []
                          | Some a \<Rightarrow> if a \<noteq> '''' then [a] else []) @ [?t],
               sp_cwd = ws\<rparr>"
    from ed have "dispatch tool ws ?t = (sp_command ?c, sp_args ?c, sp_cwd ?c)"
      by (simp add: dispatch_def)
    from launchTool_first_spawn [OF f this]
    have "\<exists>rest. spawns (launchTool e tool ws) = ?c # rest" .
  }
  with tp show ?thesis by blast
qed

theorem launchTool_project_file_target_witness:
  "targetPath sln_env rider ''D:/code/app''
     = Inr (''D:/code/app/foo.sln'', [LogInfo ''Found project file: D:/code/app/foo.sln''])
   \<and> spawns (launchTool sln_env rider ''D:/code/app'')
     = [\<lparr>sp_command = ''rider'', sp_args = [''D:/code/app/foo.sln''], sp_cwd = ''D:/code/app''\<rparr>]
   \<and> targetPath quiet_env rider ''D:/code/app'' = Inr (''D:/code/app'', [])"
proof -
  have p: "projectFilePatterns rider = Some [''*.slnx'', ''*.sln'']"
    by (simp add: rider_def)
  have g: "fg sln_env \<lparr>patterns = [''*.slnx'', ''*.sln''], cwd = ''D:/code/app'',
                       absolute = True, onlyFiles = True, deep = 1\<rparr>
           = Inr [''D:/code/app/foo.sln'', ''D:/code/app/bar.sln'']"
    by (simp add: sln_env_def)
  have g0: "fg quiet_env \<lparr>patterns = [''*.slnx'', ''*.sln''], cwd = ''D:/code/app'',
                       absolute = True, onlyFiles = True, deep = 1\<rparr> = Inr []"
    by (simp add: quiet_env_def)
  have a: "targetPath sln_env rider ''D:/code/app''
           = Inr (''D:/code/app/foo.sln'', [LogInfo ''Found project file: D:/code/app/foo.sln''])"
    using launchTool_project_file_target [OF p _ g]
    by (simp add: targetPath_def findProjectFile_def rider_def sln_env_def)
  have b: "spawns (launchTool sln_env rider ''D:/code/app'')
           = [\<lparr>sp_command = ''rider'', sp_args = [''D:/code/app/foo.sln''],
               sp_cwd = ''D:/code/app''\<rparr>]"
    by (simp add: launchTool_def try_launch_def spawnDetached_def dispatch_def Let_def
        targetPath_def findProjectFile_def rider_def plain_tool_def sln_env_def)
  have c: "targetPath quiet_env rider ''D:/code/app'' = Inr (''D:/code/app'', [])"
    using launchTool_project_file_target [OF p _ g0]
    by (simp add: targetPath_def findProjectFile_def rider_def quiet_env_def)
  from a b c show ?thesis by blast
qed

lemma catch_launch_terminal:
  assumes "launchInTerminal tool"
  shows "catch_launch e tool ws err =
           [LogError (''Failed to launch '' @ tool_name tool @ '': '' @ err),
            LogWarn ''Trying fallback launch...'', Spawn (fallback_call ws)]
           @ (case spawn e (fallback_call ws) of
                Started \<Rightarrow> [Prompt ''Press Enter to continue...'']
              | Throws err2 \<Rightarrow>
                  [LogError (''Fallback failed: '' @ err2),
                   Prompt ''Press Enter to continue...'']
              | ErrorEvent err2 \<Rightarrow>
                  [Prompt ''Press Enter to continue...'', Uncaught err2])"
  using assms
  by (simp add: catch_launch_def spawnDetached_def fallback_call_def split: spawn_result.splits)

lemma catch_launch_direct:
  assumes "\<not> launchInTerminal tool"
  shows "catch_launch e tool ws err =
           [LogError (''Failed to launch '' @ tool_name tool @ '': '' @ err),
            Prompt ''Press Enter to continue...'']"
  using assms by (simp add: catch_launch_def)

text \<open>
  What the \<open>catch\<close> block does when it is entered, that is, when the spawn call
  itself throws: the failure is reported; a terminal-mode tool gets one fallback spawn of
  the bare terminal; any other tool gets none.
\<close>

lemma launchTool_spawn_throws:
  assumes "targetPath e tool ws = Inr (tp, found)"
    and "dispatch tool ws tp = (sp_command c, sp_args c, sp_cwd c)"
    and "spawn e c = Throws err"
  shows "(launchInTerminal tool \<longrightarrow>
            launchTool e tool ws =
              LogInfo (''Launching '' @ tool_name tool @ ''...'') # found @
              [Spawn c,
               LogError (''Failed to launch '' @ tool_name tool @ '': '' @ err),
               LogWarn ''Trying fallback launch...'', Spawn (fallback_call ws)]
              @ (case spawn e (fallback_call ws) of
                   Started \<Rightarrow> [Prompt ''Press Enter to continue...'']
                 | Throws err2 \<Rightarrow>
                     [LogError (''Fallback failed: '' @ err2),
                      Prompt ''Press Enter to continue...'']
                 | ErrorEvent err2 \<Rightarrow>
                     [Prompt ''Press Enter to continue...'', Uncaught err2])
            \<and> spawns (launchTool e tool ws) = [c, fallback_call ws])
       \<and> (\<not> launchInTerminal tool \<longrightarrow>
            launchTool e tool ws =
              LogInfo (''Launching '' @ tool_name tool @ ''...'') # found @
              [Spawn c,
               LogError (''Failed to launch '' @ tool_name tool @ '': '' @ err),
               Prompt ''Press Enter to continue...'']
            \<and> spawns (launchTool e tool ws) = [c])"
proof (intro conjI impI)
  assume t: "launchInTerminal tool"
  from launchTool_threw [OF assms] catch_launch_terminal [OF t, of e ws err]
  show tr: "launchTool e tool ws =
      LogInfo (''Launching '' @ tool_name tool @ ''...'') # found @
      [Spawn c,
       LogError (''Failed to launch '' @ tool_name tool @ '': '' @ err),
       LogWarn ''Trying fallback launch...'', Spawn (fallback_call ws)]
      @ (case spawn e (fallback_call ws) of
           Started \<Rightarrow> [Prompt ''Press Enter to continue...'']
         | Throws err2 \<Rightarrow>
             [LogError (''Fallback failed: '' @ err2),
              Prompt ''Press Enter to continue...'']
         | ErrorEvent err2 \<Rightarrow>
             [Prompt ''Press Enter to continue...'', Uncaught err2])"
    by simp
  show "spawns (launchTool e tool ws) = [c, fallback_call ws]"
    unfolding tr using targetPath_found_spawns [OF assms(1)]
    by (simp add: spawns_append split: spawn_result.splits)
next
  assume t: "\<not> launchInTerminal tool"
  from launchTool_threw [OF assms] catch_launch_direct [OF t, of e ws err]
  show tr: "launchTool e tool ws =
      LogInfo (''Launching '' @ tool_name tool @ ''...'') # found @
      [Spawn c,
       LogError (''Failed to launch '' @ tool_name tool @ '': '' @ err),
       Prompt ''Press Enter to continue...'']"
    by simp
  show "spawns (launchTool e tool ws) = [c]"
    unfolding tr using targetPath_found_spawns [OF assms(1)]
    by (simp add: spawns_append)
qed

text \<open>
  C6. On a spawn failure a terminal-mode tool is to get the failure reported and one
  fallback spawn, and any other tool the failure reported. The code does this only for
  a spawn call that throws. The failures the specification names, executable not found
  and permission denied, do not throw: they arrive as an \<open>error\<close> event that
  \<open>spawnDetached\<close> does not listen for. The theorem runs the code where no command is
  found, on the catalog's Claude entry (terminal mode) and on its IntelliJ entry: in both
  launches the one spawn is followed by the end of the process, with no report, no
  fallback and no prompt.
\<close>

theorem launchTool_spawn_error_event_ends_process:
  "launchTool enoent_env claude_catalog ''D:/code/app'' =
     [LogInfo ''Launching Claude Code...'',
      Spawn \<lparr>sp_command = ''wt'',
             sp_args = [''-d'', ''D:/code/app'', ''pwsh'', ''-NoExit'', ''-Command'', ''claude''],
             sp_cwd = ''D:/code/app''\<rparr>,
      Uncaught ''Error: spawn wt ENOENT'']
   \<and> spawns (launchTool enoent_env claude_catalog ''D:/code/app'') =
     [\<lparr>sp_command = ''wt'',
       sp_args = [''-d'', ''D:/code/app'', ''pwsh'', ''-NoExit'', ''-Command'', ''claude''],
       sp_cwd = ''D:/code/app''\<rparr>]
   \<and> launchTool enoent_env idea_catalog ''D:/code/app'' =
     [LogInfo ''Launching IntelliJ IDEA...'',
      Spawn \<lparr>sp_command = ''idea'', sp_args = [''D:/code/app''], sp_cwd = ''D:/code/app''\<rparr>,
      Uncaught ''Error: spawn idea ENOENT'']"
  by (simp add: launchTool_def try_launch_def targetPath_def dispatch_def spawnDetached_def
      Let_def claude_catalog_def idea_catalog_def plain_tool_def enoent_env_def)

section \<open>Properties of quick launch and the launch flow\<close>

lemmas string_eval = toLowerCase_def lower_char_def string_includes_def sublist_code prefix_code

lemma find_project_containing:
  "find_project projects q =
     find (\<lambda>p. string_includes (toLowerCase (project_name p)) (toLowerCase q)) projects"
  unfolding find_project_def
  by (rule arg_cong [where f = "\<lambda>P. find P projects"]) (auto simp: string_includes_def)

lemma find_filter: "find P xs = (case filter P xs of [] \<Rightarrow> None | x # _ \<Rightarrow> Some x)"
  by (induction xs) auto

lemma find_Some_set: "find P xs = Some x \<Longrightarrow> x \<in> set xs \<and> P x"
  by (induction xs) (auto split: if_splits)

lemma quickLaunch_project:
  assumes "quickLaunch e s projects q toolId = (s', Launched p t evs)"
  shows "find_project projects q = Some p"
  using assms
  by (auto simp: quickLaunch_def split: option.splits if_splits tool_choice.splits sum.splits)

lemma quickLaunch_tool:
  assumes "quickLaunch e s projects q toolId = (s', Launched p t evs)"
  shows "find_tool (filter enabled (loadTools s)) toolId = Chosen t"
  using assms
  by (auto simp: quickLaunch_def split: option.splits if_splits tool_choice.splits sum.splits)

lemma find_tool_member: "find_tool tools toolId = Chosen t \<Longrightarrow> t \<in> set tools"
  by (auto simp: find_tool_def first_tool_def
      split: option.splits if_splits list.splits dest: find_Some_set)

text \<open>
  C2, as the code has it. \<open>quickLaunch\<close> resolves the query to the first project, in
  stored order, whose lower-cased name contains the lower-cased query; a name equal to
  the query is one that contains it, and it is not preferred to an earlier containing
  name. When no name equals the query this is the exact-first rule. Projects
  \<open>Alpha\<close>, \<open>beta-app\<close> and the query \<open>BETA\<close> resolve to \<open>beta-app\<close>.
\<close>

theorem quickLaunch_first_containing_project:
  "find_project projects q =
     find (\<lambda>p. string_includes (toLowerCase (project_name p)) (toLowerCase q)) projects
   \<and> (find (\<lambda>p. toLowerCase (project_name p) = toLowerCase q) projects = None \<longrightarrow>
        find_project projects q = find_project_exact_first projects q)
   \<and> (\<forall>s' p t evs. quickLaunch e s projects q toolId = (s', Launched p t evs) \<longrightarrow>
        find_project projects q = Some p)
   \<and> find_project [project_named ''Alpha'', project_named ''beta-app''] ''BETA''
       = Some (project_named ''beta-app'')"
proof (intro conjI allI impI)
  show "find_project projects q =
     find (\<lambda>p. string_includes (toLowerCase (project_name p)) (toLowerCase q)) projects"
    by (rule find_project_containing)
next
  assume "find (\<lambda>p. toLowerCase (project_name p) = toLowerCase q) projects = None"
  then show "find_project projects q = find_project_exact_first projects q"
    by (simp add: find_project_containing find_project_exact_first_def)
next
  fix s' p t evs
  assume "quickLaunch e s projects q toolId = (s', Launched p t evs)"
  then show "find_project projects q = Some p" by (rule quickLaunch_project)
next
  show "find_project [project_named ''Alpha'', project_named ''beta-app''] ''BETA''
       = Some (project_named ''beta-app'')"
    by (simp add: find_project_def string_eval project_named_def)
qed

theorem quickLaunch_first_containing_project_witness:
  "find (\<lambda>p. toLowerCase (project_name p) = toLowerCase ''BETA'')
     [project_named ''Alpha'', project_named ''beta-app''] = None
   \<and> find_project_exact_first [project_named ''Alpha'', project_named ''beta-app''] ''BETA''
       = Some (project_named ''beta-app'')"
proof -
  have n: "find (\<lambda>p. toLowerCase (project_name p) = toLowerCase ''BETA'')
             [project_named ''Alpha'', project_named ''beta-app''] = None"
    by (simp add: string_eval project_named_def)
  from quickLaunch_first_containing_project
    [of "[project_named ''Alpha'', project_named ''beta-app'']" "''BETA''"
        quiet_env empty_fs None] n
  have "find_project [project_named ''Alpha'', project_named ''beta-app''] ''BETA''
          = find_project_exact_first [project_named ''Alpha'', project_named ''beta-app''] ''BETA''"
    and "find_project [project_named ''Alpha'', project_named ''beta-app''] ''BETA''
          = Some (project_named ''beta-app'')"
    by blast+
  with n show ?thesis by metis
qed

text \<open>
  The claim C2 as stated fails: with projects \<open>beta-app\<close>, \<open>beta\<close> and the query
  \<open>beta\<close> there is an exact match, yet the code resolves to \<open>beta-app\<close>.
\<close>

theorem quickLaunch_exact_match_not_preferred:
  "find_project [project_named ''beta-app'', project_named ''beta''] ''beta''
     = Some (project_named ''beta-app'')
   \<and> find_project_exact_first [project_named ''beta-app'', project_named ''beta''] ''beta''
     = Some (project_named ''beta'')
   \<and> find_project [project_named ''beta-app'', project_named ''beta''] ''beta''
     \<noteq> find_project_exact_first [project_named ''beta-app'', project_named ''beta''] ''beta''"
  by (simp add: find_project_def find_project_exact_first_def string_eval project_named_def)

text \<open>
  C8. Every tool offered by the launch flow is enabled, and so is every tool that
  \<open>quickLaunch\<close> launches; both come from the registry. Without a tool argument
  \<open>quickLaunch\<close> launches the first enabled tool of the registry: whenever it
  launches, that is the tool, and it does launch it when the project resolves, its path
  exists, an enabled tool exists and the recents can be written.
\<close>

theorem disabled_tools_never_launched:
  "(\<forall>t \<in> set (launchFlow_tools s). enabled t \<and> t \<in> set (loadTools s))
   \<and> (\<forall>s' p t evs. quickLaunch e s projects q toolId = (s', Launched p t evs) \<longrightarrow>
        enabled t \<and> t \<in> set (loadTools s))
   \<and> (\<forall>s' p t evs. quickLaunch e s projects q None = (s', Launched p t evs) \<longrightarrow>
        find enabled (loadTools s) = Some t)
   \<and> (\<forall>p t s'. find_project projects q = Some p \<and> path_exists e (project_path p) \<and>
        find enabled (loadTools s) = Some t \<and> addRecent s (project_name p) = Inr s' \<longrightarrow>
        quickLaunch e s projects q None
          = (s', Launched p t (launchTool e t (project_path p))))"
proof (intro conjI allI impI ballI)
  fix t assume "t \<in> set (launchFlow_tools s)"
  then show "enabled t" "t \<in> set (loadTools s)" by (simp_all add: launchFlow_tools_def)
next
  fix s' p t evs
  assume "quickLaunch e s projects q toolId = (s', Launched p t evs)"
  then have "t \<in> set (filter enabled (loadTools s))"
    by (blast dest: quickLaunch_tool find_tool_member)
  then show "enabled t" "t \<in> set (loadTools s)" by simp_all
next
  fix s' p t evs
  assume "quickLaunch e s projects q None = (s', Launched p t evs)"
  then have "find_tool (filter enabled (loadTools s)) None = Chosen t"
    by (rule quickLaunch_tool)
  then show "find enabled (loadTools s) = Some t"
    by (simp add: find_tool_def first_tool_def find_filter split: list.splits)
next
  fix p t s'
  assume a: "find_project projects q = Some p \<and> path_exists e (project_path p) \<and>
        find enabled (loadTools s) = Some t \<and> addRecent s (project_name p) = Inr s'"
  then have "find_tool (filter enabled (loadTools s)) None = Chosen t"
    by (simp add: find_tool_def first_tool_def find_filter split: list.splits)
  with a show "quickLaunch e s projects q None
          = (s', Launched p t (launchTool e t (project_path p)))"
    by (simp add: quickLaunch_def)
qed

theorem disabled_tools_never_launched_witness:
  "loadTools two_tools_fs = [vs_off, idea_on]
   \<and> launchFlow_tools two_tools_fs = [idea_on]
   \<and> quickLaunch quiet_env two_tools_fs [project_named ''app''] ''APP'' None
     = (two_tools_fs\<lparr>files := (files two_tools_fs)
                       (RECENTS_PATH := Json (JArray [JString ''app'']))\<rparr>,
        Launched (project_named ''app'') idea_on
          (launchTool quiet_env idea_on ''D:/code/app''))"
proof -
  let ?s' = "two_tools_fs\<lparr>files := (files two_tools_fs)
                       (RECENTS_PATH := Json (JArray [JString ''app'']))\<rparr>"
  have lt: "loadTools two_tools_fs = [vs_off, idea_on]"
    by (simp add: loadTools_def existsSync_def read_json_def two_tools_fs_def with_file_def
        empty_fs_def ToolsConfigSchema_def vs_off_def idea_on_def plain_tool_def)
  have lf: "launchFlow_tools two_tools_fs = [idea_on]"
    by (simp add: launchFlow_tools_def lt vs_off_def idea_on_def plain_tool_def)
  have fp: "find_project [project_named ''app''] ''APP'' = Some (project_named ''app'')"
    by (simp add: find_project_def string_eval project_named_def)
  have pe: "path_exists quiet_env (project_path (project_named ''app''))"
    by (simp add: quiet_env_def)
  have fe: "find enabled (loadTools two_tools_fs) = Some idea_on"
    by (simp add: lt vs_off_def idea_on_def plain_tool_def)
  have ar: "addRecent two_tools_fs (project_name (project_named ''app'')) = Inr ?s'"
    by (simp add: addRecent_def ensureConfigDir_def writeFileSync_def loadRecents_def
        existsSync_def two_tools_fs_def with_file_def empty_fs_def project_named_def)
  from disabled_tools_never_launched
    [of two_tools_fs quiet_env "[project_named ''app'']" "''APP''" None] fp pe fe ar
  have "quickLaunch quiet_env two_tools_fs [project_named ''app''] ''APP'' None
     = (?s', Launched (project_named ''app'') idea_on
          (launchTool quiet_env idea_on (project_path (project_named ''app''))))"
    by blast
  then have "quickLaunch quiet_env two_tools_fs [project_named ''app''] ''APP'' None
     = (?s', Launched (project_named ''app'') idea_on
          (launchTool quiet_env idea_on ''D:/code/app''))"
    by (simp add: project_named_def)
  with lt lf show ?thesis by blast
qed

section \<open>Properties of workspace management\<close>

lemma persist_result:
  "persist s ps = Inr (s', ps') \<Longrightarrow> ps' = ps \<and> loadProjects s' = ps"
  by (auto simp: persist_def loadProjects_after_save split: sum.splits)

lemma persist_ok:
  "\<not> read_only s \<Longrightarrow> \<exists>s'. persist s ps = Inr (s', ps) \<and> loadProjects s' = ps"
proof -
  assume "\<not> read_only s"
  then obtain s' where s': "saveProjects s ps = Inr s'"
    unfolding saveProjects_def using save_json_ok by blast
  then have "persist s ps = Inr (s', ps)" by (simp add: persist_def)
  with s' show ?thesis by (blast dest: loadProjects_after_save)
qed

lemma hd_splice1:
  "0 < k \<Longrightarrow> xs \<noteq> [] \<Longrightarrow> splice1 xs k \<noteq> [] \<and> hd (splice1 xs k) = hd xs"
  by (cases xs; cases k) (simp_all add: splice1_def)

lemma hd_update_later:
  "0 < k \<Longrightarrow> xs \<noteq> [] \<Longrightarrow> hd (xs[k := v]) = hd xs"
  by (cases xs; cases k) simp_all

text \<open>What a single round of the menu keeps.\<close>

lemma workspace_round_keeps:
  assumes "workspace_round s ps i m = Inr (s', ps')"
    and "i < length ps" and "workspaces (ps ! i) \<noteq> []"
  shows "length ps' = length ps \<and> workspaces (ps' ! i) \<noteq> [] \<and>
         (\<not> edits_root m \<longrightarrow> hd (workspaces (ps' ! i)) = hd (workspaces (ps ! i)))"
proof (cases m)
  case Back
  with assms show ?thesis by simp
next
  case (Add wsName wsPath)
  with assms show ?thesis
    by (auto simp: set_workspaces_def split: answer.splits if_splits option.splits
        dest!: persist_result)
next
  case (Edit k a)
  show ?thesis
  proof (cases a)
    case EditBack
    with Edit assms show ?thesis by (simp add: Let_def split: if_splits)
  next
    case (Rename n)
    with Edit assms show ?thesis
      by (auto simp: Let_def set_workspaces_def hd_update_later
          split: answer.splits if_splits dest!: persist_result)
  next
    case (ChangePath p)
    with Edit assms show ?thesis
      by (auto simp: Let_def set_workspaces_def hd_update_later
          split: answer.splits if_splits dest!: persist_result)
  next
    case (Delete c)
    with Edit assms show ?thesis
      by (auto simp: Let_def set_workspaces_def hd_splice1
          split: if_splits dest!: persist_result)
  qed
qed

lemma manageWorkspaces_keeps:
  assumes "manageWorkspaces s ps i ms = Inr (s', ps')"
    and "i < length ps" and "workspaces (ps ! i) \<noteq> []"
  shows "length ps' = length ps \<and> workspaces (ps' ! i) \<noteq> [] \<and>
         ((\<forall>m \<in> set ms. \<not> edits_root m) \<longrightarrow>
            hd (workspaces (ps' ! i)) = hd (workspaces (ps ! i)))"
  using assms
proof (induction ms arbitrary: s ps)
  case Nil
  then show ?case by simp
next
  case (Cons m ms)
  show ?case
  proof (cases "m = Back")
    case True
    with Cons.prems show ?thesis by simp
  next
    case False
    with Cons.prems(1) obtain s1 ps1
      where r: "workspace_round s ps i m = Inr (s1, ps1)"
        and rest: "manageWorkspaces s1 ps1 i ms = Inr (s', ps')"
      by (auto split: sum.splits)
    from workspace_round_keeps [OF r Cons.prems(2,3)]
    have k: "length ps1 = length ps" "workspaces (ps1 ! i) \<noteq> []"
      "\<not> edits_root m \<longrightarrow> hd (workspaces (ps1 ! i)) = hd (workspaces (ps ! i))"
      by simp_all
    from Cons.IH [OF rest] k Cons.prems(2)
    show ?thesis by auto
  qed
qed

text \<open>
  C9, as the code has it. In a project with workspaces: a delete request for the
  workspace at index 0 is rejected, changing neither the array nor the file; a confirmed
  delete of another valid index removes exactly that entry and persists the array; and
  after any run of the workspace menu the workspaces are still non-empty. The entry at
  index 0 is never removed or displaced, but it can be renamed and repointed: it is the
  same as before provided no round renamed it or changed its path.
\<close>

theorem manageWorkspaces_root_protected:
  assumes "i < length ps" and "workspaces (ps ! i) \<noteq> []"
  shows "workspace_round s ps i (Edit 0 (Delete c)) = Inr (s, ps)
       \<and> (\<forall>k. 0 < k \<and> k < length (workspaces (ps ! i)) \<and> \<not> read_only s \<longrightarrow>
            (\<exists>s' ps'. workspace_round s ps i (Edit k (Delete (Answer True))) = Inr (s', ps')
               \<and> ps' = ps[i := (ps ! i)\<lparr>workspaces :=
                            take k (workspaces (ps ! i)) @ drop (Suc k) (workspaces (ps ! i))\<rparr>]
               \<and> loadProjects s' = ps'))
       \<and> (\<forall>ms s' ps'. manageWorkspaces s ps i ms = Inr (s', ps') \<longrightarrow>
            workspaces (ps' ! i) \<noteq> [] \<and>
            ((\<forall>m \<in> set ms. \<not> edits_root m) \<longrightarrow>
               hd (workspaces (ps' ! i)) = hd (workspaces (ps ! i))))"
proof (intro conjI allI impI)
  from assms show "workspace_round s ps i (Edit 0 (Delete c)) = Inr (s, ps)"
    by (simp add: Let_def)
next
  fix k
  assume k: "0 < k \<and> k < length (workspaces (ps ! i)) \<and> \<not> read_only s"
  let ?ps' = "ps[i := (ps ! i)\<lparr>workspaces :=
                 take k (workspaces (ps ! i)) @ drop (Suc k) (workspaces (ps ! i))\<rparr>]"
  from k obtain s' where "persist s ?ps' = Inr (s', ?ps')" "loadProjects s' = ?ps'"
    using persist_ok by blast
  with k show "\<exists>s' ps'. workspace_round s ps i (Edit k (Delete (Answer True))) = Inr (s', ps')
               \<and> ps' = ?ps' \<and> loadProjects s' = ps'"
    by (simp add: Let_def set_workspaces_def splice1_def)
next
  fix ms s' ps'
  assume r: "manageWorkspaces s ps i ms = Inr (s', ps')"
  from manageWorkspaces_keeps [OF r assms]
  show "workspaces (ps' ! i) \<noteq> []" by simp
  assume "\<forall>m \<in> set ms. \<not> edits_root m"
  with manageWorkspaces_keeps [OF r assms]
  show "hd (workspaces (ps' ! i)) = hd (workspaces (ps ! i))" by simp
qed

theorem manageWorkspaces_root_protected_witness:
  "workspace_round empty_fs [app3] 0 (Edit 0 (Delete (Answer True))) = Inr (empty_fs, [app3])
   \<and> workspace_round empty_fs [app3] 0 (Edit 1 (Delete (Answer True)))
     = Inr (with_file CONFIG_PATH (Json (JArray [project_json
              (app3\<lparr>workspaces := [\<lparr>ws_name = ''Root'', ws_path = ''.''\<rparr>,
                                   \<lparr>ws_name = ''Api'', ws_path = ''api''\<rparr>]\<rparr>)])),
            [app3\<lparr>workspaces := [\<lparr>ws_name = ''Root'', ws_path = ''.''\<rparr>,
                                 \<lparr>ws_name = ''Api'', ws_path = ''api''\<rparr>]\<rparr>])"
proof -
  have a: "0 < length [app3]" by simp
  have b: "workspaces ([app3] ! 0) \<noteq> []" by (simp add: app3_def)
  from manageWorkspaces_root_protected [OF a b, of empty_fs "Answer True"]
  have "workspace_round empty_fs [app3] 0 (Edit 0 (Delete (Answer True))) = Inr (empty_fs, [app3])"
    by blast
  moreover
  have "workspace_round empty_fs [app3] 0 (Edit 1 (Delete (Answer True)))
     = Inr (with_file CONFIG_PATH (Json (JArray [project_json
              (app3\<lparr>workspaces := [\<lparr>ws_name = ''Root'', ws_path = ''.''\<rparr>,
                                   \<lparr>ws_name = ''Api'', ws_path = ''api''\<rparr>]\<rparr>)])),
            [app3\<lparr>workspaces := [\<lparr>ws_name = ''Root'', ws_path = ''.''\<rparr>,
                                 \<lparr>ws_name = ''Api'', ws_path = ''api''\<rparr>]\<rparr>])"
    by (simp add: Let_def set_workspaces_def splice1_def persist_def saveProjects_def
        save_json_def ensureConfigDir_def writeFileSync_def empty_fs_def with_file_def
        app3_def)
  ultimately show ?thesis by blast
qed

text \<open>
  The claim C9 as stated fails in its last part: renaming the workspace at index 0 is
  accepted and persisted, after which the entry at index 0 is no longer the Root entry.
\<close>

theorem manageWorkspaces_root_renamed:
  "manageWorkspaces empty_fs [project_named ''app''] 0 [Edit 0 (Rename (Answer ''Main''))]
     = Inr (with_file CONFIG_PATH (Json (JArray [project_json
              ((project_named ''app'')\<lparr>workspaces := [\<lparr>ws_name = ''Main'', ws_path = ''.''\<rparr>]\<rparr>)])),
            [(project_named ''app'')\<lparr>workspaces := [\<lparr>ws_name = ''Main'', ws_path = ''.''\<rparr>]\<rparr>])
   \<and> hd (workspaces (project_named ''app'')) = \<lparr>ws_name = ''Root'', ws_path = ''.''\<rparr>
   \<and> hd (workspaces ((project_named ''app'')
            \<lparr>workspaces := [\<lparr>ws_name = ''Main'', ws_path = ''.''\<rparr>]\<rparr>))
     \<noteq> hd (workspaces (project_named ''app''))"
  by (simp add: Let_def set_workspaces_def persist_def saveProjects_def
      save_json_def ensureConfigDir_def writeFileSync_def empty_fs_def with_file_def
      project_named_def)

end
